theory Spec2Isabelle
  imports Main
begin

section \<open>Data model of the key store (model/address, utils/storage)\<close>

text \<open>
  \<^verbatim>\<open>AddressType\<close>, \<^verbatim>\<open>WalletAddress\<close> and \<^verbatim>\<open>StoredKey\<close> are declared outside
  \<^verbatim>\<open>keystore.ts\<close>; their shape is read off the object literals that \<^verbatim>\<open>keystore.ts\<close>
  builds. Both objects have a field called \<^verbatim>\<open>type\<close>; it is \<open>addressType\<close> in a wallet
  address and \<open>keyType\<close> in a stored key.
\<close>

datatype AddressType = Platform | Asset

type_synonym NetworkId = string

record WalletAddress =
  name :: string
  address :: string
  addressType :: AddressType

record StoredKey =
  pathIndex :: nat
  keyType :: AddressType
  key :: string

text \<open>
  The local storage read and written by \<^verbatim>\<open>getPlatformKeys\<close>, \<^verbatim>\<open>savePlatformKeys\<close>,
  \<^verbatim>\<open>getAssetKeys\<close>, \<^verbatim>\<open>saveAssetKeys\<close> and \<^verbatim>\<open>getPassphrase\<close>. A getter answers
  \<open>None\<close> where the JavaScript one answers \<^verbatim>\<open>null\<close> or \<^verbatim>\<open>undefined\<close>.
\<close>

record Storage =
  platformKeys :: "StoredKey list option"
  assetKeys :: "StoredKey list option"
  passphrase :: "string option"

definition getPlatformKeys :: "Storage \<Rightarrow> StoredKey list option" where
  "getPlatformKeys s = platformKeys s"

definition getAssetKeys :: "Storage \<Rightarrow> StoredKey list option" where
  "getAssetKeys s = assetKeys s"

definition getPassphrase :: "Storage \<Rightarrow> string option" where
  "getPassphrase s = passphrase s"

definition savePlatformKeys :: "StoredKey list \<Rightarrow> Storage \<Rightarrow> Storage" where
  "savePlatformKeys ks s = s\<lparr>platformKeys := Some ks\<rparr>"

definition saveAssetKeys :: "StoredKey list \<Rightarrow> Storage \<Rightarrow> Storage" where
  "saveAssetKeys ks s = s\<lparr>assetKeys := Some ks\<rparr>"

text \<open>
  The collaborators of \<^verbatim>\<open>keystore.ts\<close> that live in other packages: the vault
  (\<^verbatim>\<open>ccKey.hdwseed\<close>), the hash \<^verbatim>\<open>blake160\<close>, the two address encoders of the SDK and
  the two ledger queries. They are parameters of the model. Each is taken as a function
  of its arguments whose call resolves; a run in which one of them rejects ends before
  anything is saved and is outside the model. \<open>getPlatformAccount\<close> answers the
  account's nonce, \<open>getAggsUTXOList\<close> the list of aggregated unspent outputs.
\<close>

record 'u Collaborators =
  getSeedHashes :: "string list"
  getPublicKeyFromSeed :: "string option \<Rightarrow> string \<Rightarrow> string option \<Rightarrow> string"
  blake160 :: "string \<Rightarrow> string"
  fromAccountId :: "string \<Rightarrow> NetworkId \<Rightarrow> string"
  fromTypeAndPayload :: "nat \<Rightarrow> string \<Rightarrow> NetworkId \<Rightarrow> string"
  getPlatformAccount :: "string \<Rightarrow> NetworkId \<Rightarrow> nat"
  getAggsUTXOList :: "string \<Rightarrow> NetworkId \<Rightarrow> 'u list"

text \<open>\<^verbatim>\<open>getFirstSeedHash\<close>: \<^verbatim>\<open>seedHashes[0]\<close>, which is \<^verbatim>\<open>undefined\<close> on an empty array.\<close>

definition getFirstSeedHash :: "'u Collaborators \<Rightarrow> string option" where
  "getFirstSeedHash c = (case getSeedHashes c of [] \<Rightarrow> None | h # _ \<Rightarrow> Some h)"

section \<open>Derivation paths\<close>

text \<open>
  A path is a fixed prefix followed by the index, which JavaScript converts to a string
  by \<^verbatim>\<open>prefix + index\<close>. \<open>number_toString\<close> is that conversion for a non-negative
  integer: its decimal digits, most significant first, no leading zero (JavaScript
  prints every integer below \<open>10\<^sup>2\<^sup>1\<close> this way).
\<close>

definition digit_char :: "nat \<Rightarrow> char" where
  "digit_char d = char_of (48 + d)"

function number_toString :: "nat \<Rightarrow> string" where
  "number_toString n =
     (if n < 10 then [digit_char n]
      else number_toString (n div 10) @ [digit_char (n mod 10)])"
  by pat_completeness auto
termination
  by (relation "measure (\<lambda>n. n)") auto

declare number_toString.simps [simp del]

definition platformAddressPath :: string where
  "platformAddressPath = ''m/44'/3276/0'/0/''"

definition assetAddressPath :: string where
  "assetAddressPath = ''m/44'/3276/1'/0/''"

definition restoringCheckingRange :: nat where
  "restoringCheckingRange = 10"

text \<open>The path of a role at an index, as the six derivation calls build it.\<close>

fun pathFor :: "AddressType \<Rightarrow> nat \<Rightarrow> string" where
  "pathFor Platform i = platformAddressPath @ number_toString i"
| "pathFor Asset i = assetAddressPath @ number_toString i"

section \<open>Discovery: \<^verbatim>\<open>restorePlatformAddresses\<close> and \<^verbatim>\<open>restoreAssetAddresses\<close>\<close>

text \<open>\<^verbatim>\<open>xs.slice(0, n)\<close> for a non-negative \<open>n\<close>.\<close>

definition slice0 :: "'a list \<Rightarrow> nat \<Rightarrow> 'a list" where
  "slice0 xs n = take n xs"

text \<open>
  The \<^verbatim>\<open>while\<close> loop of \<^verbatim>\<open>restorePlatformAddresses\<close>. Its state is \<^verbatim>\<open>currentPath\<close>,
  the two arrays and \<^verbatim>\<open>lastValidPlatfromPathIndex\<close> (\<open>None\<close> while it is
  \<^verbatim>\<open>undefined\<close>).
\<close>

function restorePlatformLoop ::
  "'u Collaborators \<Rightarrow> NetworkId \<Rightarrow> Storage \<Rightarrow> nat \<Rightarrow> WalletAddress list \<Rightarrow> StoredKey list \<Rightarrow>
   nat option \<Rightarrow> WalletAddress list \<times> StoredKey list \<times> nat option" where
  "restorePlatformLoop c networkId s currentPath platformAddresses pKeys lastValid =
     (if currentPath < restoringCheckingRange then
        let platformPubkey =
              getPublicKeyFromSeed c (getFirstSeedHash c)
                (platformAddressPath @ number_toString currentPath) (getPassphrase s);
            k = blake160 c platformPubkey;
            a = fromAccountId c k networkId;
            nonce = getPlatformAccount c a networkId;
            lastValid' = (if number_toString nonce \<noteq> ''0'' then Some currentPath else lastValid)
        in restorePlatformLoop c networkId s (currentPath + 1)
             (platformAddresses @
                [\<lparr>name = ''P-address '' @ number_toString currentPath, address = a,
                  addressType = Platform\<rparr>])
             (pKeys @ [\<lparr>pathIndex = currentPath, keyType = Platform, key = k\<rparr>])
             lastValid'
      else (platformAddresses, pKeys, lastValid))"
  by pat_completeness auto
termination
  by (relation "measure (\<lambda>(c, n, s, currentPath, r). restoringCheckingRange - currentPath)")
    auto

declare restorePlatformLoop.simps [simp del]

text \<open>
  After the loop, \<^verbatim>\<open>if (!lastValidPlatfromPathIndex)\<close> takes the first branch when the
  variable is \<^verbatim>\<open>undefined\<close> and also when it is the number 0. The function answers the
  returned addresses and the storage after \<^verbatim>\<open>savePlatformKeys(retKeys)\<close>.
\<close>

definition restorePlatformAddresses ::
  "'u Collaborators \<Rightarrow> NetworkId \<Rightarrow> Storage \<Rightarrow> WalletAddress list \<times> Storage" where
  "restorePlatformAddresses c networkId s =
     (case restorePlatformLoop c networkId s 0 [] [] None of
        (platformAddresses, pKeys, lastValid) \<Rightarrow>
          (case (case lastValid of
                   None \<Rightarrow> ([], [])
                 | Some l \<Rightarrow>
                     if l = 0 then ([], [])
                     else (slice0 platformAddresses (l + 1), slice0 pKeys (l + 1))) of
             (retValue, retKeys) \<Rightarrow> (retValue, savePlatformKeys retKeys s)))"

function restoreAssetLoop ::
  "'u Collaborators \<Rightarrow> NetworkId \<Rightarrow> Storage \<Rightarrow> nat \<Rightarrow> WalletAddress list \<Rightarrow> StoredKey list \<Rightarrow>
   nat option \<Rightarrow> WalletAddress list \<times> StoredKey list \<times> nat option" where
  "restoreAssetLoop c networkId s currentPath assetAddresses aKeys lastValid =
     (if currentPath < restoringCheckingRange then
        let assetPubKey =
              getPublicKeyFromSeed c (getFirstSeedHash c)
                (assetAddressPath @ number_toString currentPath) (getPassphrase s);
            k = blake160 c assetPubKey;
            a = fromTypeAndPayload c 1 k networkId;
            aggsUTXO = getAggsUTXOList c a networkId;
            lastValid' = (if length aggsUTXO \<noteq> 0 then Some currentPath else lastValid)
        in restoreAssetLoop c networkId s (currentPath + 1)
             (assetAddresses @
                [\<lparr>name = ''A-address '' @ number_toString currentPath, address = a,
                  addressType = Asset\<rparr>])
             (aKeys @ [\<lparr>pathIndex = currentPath, keyType = Asset, key = k\<rparr>])
             lastValid'
      else (assetAddresses, aKeys, lastValid))"
  by pat_completeness auto
termination
  by (relation "measure (\<lambda>(c, n, s, currentPath, r). restoringCheckingRange - currentPath)")
    auto

declare restoreAssetLoop.simps [simp del]

definition restoreAssetAddresses ::
  "'u Collaborators \<Rightarrow> NetworkId \<Rightarrow> Storage \<Rightarrow> WalletAddress list \<times> Storage" where
  "restoreAssetAddresses c networkId s =
     (case restoreAssetLoop c networkId s 0 [] [] None of
        (assetAddresses, aKeys, lastValid) \<Rightarrow>
          (case (case lastValid of
                   None \<Rightarrow> ([], [])
                 | Some l \<Rightarrow>
                     if l = 0 then ([], [])
                     else (slice0 assetAddresses (l + 1), slice0 aKeys (l + 1))) of
             (retValue, retKeys) \<Rightarrow> (retValue, saveAssetKeys retKeys s)))"

section \<open>Issuance: \<^verbatim>\<open>createPlatformAddress\<close> and \<^verbatim>\<open>createAssetAddress\<close>\<close>

text \<open>
  \<^verbatim>\<open>savedKeys && savedKeys.length > 0\<close>, and the array behind it (\<^verbatim>\<open>_.last\<close> and the
  spread \<^verbatim>\<open>...savedKeys\<close> are reached only when the test holds).
\<close>

definition hasKeys :: "StoredKey list option \<Rightarrow> bool" where
  "hasKeys saved = (case saved of None \<Rightarrow> False | Some ks \<Rightarrow> length ks > 0)"

definition savedList :: "StoredKey list option \<Rightarrow> StoredKey list" where
  "savedList saved = (case saved of None \<Rightarrow> [] | Some ks \<Rightarrow> ks)"

text \<open>The derivation call of issuance passes no passphrase (\<open>None\<close>).\<close>

definition createPlatformAddress ::
  "'u Collaborators \<Rightarrow> NetworkId \<Rightarrow> Storage \<Rightarrow> WalletAddress \<times> Storage" where
  "createPlatformAddress c networkId s =
     (let savedPlatformKeys = getPlatformKeys s;
          pathIndex0 =
            (if hasKeys savedPlatformKeys then pathIndex (last (savedList savedPlatformKeys)) + 1
             else 0);
          newPathIndex = pathIndex0 + 1;
          platformPubkey =
            getPublicKeyFromSeed c (getFirstSeedHash c)
              (platformAddressPath @ number_toString newPathIndex) None;
          k = blake160 c platformPubkey;
          s' =
            (if hasKeys savedPlatformKeys then
               savePlatformKeys
                 (savedList savedPlatformKeys @
                    [\<lparr>pathIndex = newPathIndex, keyType = Platform, key = k\<rparr>]) s
             else savePlatformKeys [\<lparr>pathIndex = newPathIndex, keyType = Platform, key = k\<rparr>] s);
          a = fromAccountId c k networkId
      in (\<lparr>name = ''P-address '' @ number_toString newPathIndex, address = a,
           addressType = Platform\<rparr>, s'))"

definition createAssetAddress ::
  "'u Collaborators \<Rightarrow> NetworkId \<Rightarrow> Storage \<Rightarrow> WalletAddress \<times> Storage" where
  "createAssetAddress c networkId s =
     (let savedAssetKeys = getAssetKeys s;
          pathIndex0 =
            (if hasKeys savedAssetKeys then pathIndex (last (savedList savedAssetKeys)) + 1
             else 0);
          newPathIndex = pathIndex0 + 1;
          assetPubKey =
            getPublicKeyFromSeed c (getFirstSeedHash c)
              (assetAddressPath @ number_toString pathIndex0) None;
          k = blake160 c assetPubKey;
          s' =
            (if hasKeys savedAssetKeys then
               saveAssetKeys
                 (savedList savedAssetKeys @
                    [\<lparr>pathIndex = newPathIndex, keyType = Platform, key = k\<rparr>]) s
             else saveAssetKeys [\<lparr>pathIndex = newPathIndex, keyType = Platform, key = k\<rparr>] s);
          a = fromTypeAndPayload c 1 k networkId
      in (\<lparr>name = ''A-address '' @ number_toString newPathIndex, address = a,
           addressType = Asset\<rparr>, s'))"

section \<open>The chain reducer (redux/chain/chainReducer)\<close>

text \<open>
  One cached entry: \<^verbatim>\<open>{ data?, isFetching, updatedAt? }\<close>. An optional field that is
  absent, \<^verbatim>\<open>undefined\<close> or \<^verbatim>\<open>null\<close> is \<open>None\<close>. \<^verbatim>\<open>updatedAt\<close> holds
  \<^verbatim>\<open>+new Date()\<close>, a number of milliseconds.
\<close>

record 'd Fetched =
  data :: "'d option"
  isFetching :: bool
  updatedAt :: "int option"

text \<open>
  An object used as a dictionary is a map from its keys; a key that is absent or bound to
  \<^verbatim>\<open>null\<close> is \<open>None\<close>. \<open>'tx\<close> stands for \<^verbatim>\<open>TransactionDoc\<close>.
\<close>

record 'tx ChainState =
  pendingTxList :: "string \<rightharpoonup> 'tx list Fetched"
  txList :: "string \<rightharpoonup> 'tx list Fetched"
  countOfTxList :: "string \<rightharpoonup> nat Fetched"
  pendingTxListById :: "string \<rightharpoonup> 'tx list Fetched"
  txListById :: "string \<rightharpoonup> 'tx list Fetched"
  countOfTxListById :: "string \<rightharpoonup> nat Fetched"
  bestBlockNumber :: "nat Fetched option"

definition chainInitState :: "'tx ChainState" where
  "chainInitState =
     \<lparr>pendingTxList = Map.empty, txList = Map.empty, countOfTxList = Map.empty,
      pendingTxListById = Map.empty, txListById = Map.empty, countOfTxListById = Map.empty,
      bestBlockNumber = None\<rparr>"

text \<open>\<^verbatim>\<open>`${address}-${assetType.value}`\<close>; the second argument is the value of the H160.\<close>

definition getIdByAddressAssetType :: "string \<Rightarrow> string \<Rightarrow> string" where
  "getIdByAddressAssetType a assetType = a @ ''-'' @ assetType"

text \<open>
  The actions the reducer handles, each with the fields of \<^verbatim>\<open>action.data\<close> it reads
  (\<^verbatim>\<open>chainActions.ts\<close> is outside the sources). \<open>OtherAction\<close> is any action that no
  \<^verbatim>\<open>case\<close> of the \<^verbatim>\<open>switch\<close> matches.
\<close>

datatype 'tx Action =
    CachePendingTxList string "'tx list"
  | SetFetchingPendingTxList string
  | UpdateBestBlockNumber nat
  | SetFetchingBestBlockNumber
  | CacheTxList string "'tx list"
  | SetFetchingTxList string
  | SetFetchingCountOfTxList string
  | SetFetchingCountOfTxListById string string
  | CacheCountOfTxList string nat
  | CacheCountOfTxListById string string nat
  | SetFetchingTxListById string string
  | CacheTxListById string string "'tx list"
  | OtherAction

text \<open>\<^verbatim>\<open>{ ...entry, isFetching: true }\<close>, where spreading a missing entry adds nothing.\<close>

definition setFetching :: "'d Fetched option \<Rightarrow> 'd Fetched" where
  "setFetching entry =
     (case entry of
        None \<Rightarrow> \<lparr>data = None, isFetching = True, updatedAt = None\<rparr>
      | Some f \<Rightarrow> f\<lparr>isFetching := True\<rparr>)"

text \<open>\<^verbatim>\<open>{ data: d, updatedAt: +new Date(), isFetching: false }\<close>.\<close>

definition cached :: "int \<Rightarrow> 'd \<Rightarrow> 'd Fetched" where
  "cached now d = \<lparr>data = Some d, isFetching = False, updatedAt = Some now\<rparr>"

text \<open>
  The cases of the \<^verbatim>\<open>switch\<close>, in the order of the source. \<open>now\<close> is what
  \<^verbatim>\<open>+new Date()\<close> answers during the call.
\<close>

fun reduce :: "int \<Rightarrow> 'tx ChainState \<Rightarrow> 'tx Action \<Rightarrow> 'tx ChainState" where
  "reduce now state (CachePendingTxList a txs) =
     state\<lparr>pendingTxList := (pendingTxList state)(a \<mapsto> cached now txs)\<rparr>"
| "reduce now state (SetFetchingPendingTxList a) =
     state\<lparr>pendingTxList := (pendingTxList state)(a \<mapsto> setFetching (pendingTxList state a))\<rparr>"
| "reduce now state (UpdateBestBlockNumber n) =
     state\<lparr>bestBlockNumber := Some (cached now n)\<rparr>"
| "reduce now state SetFetchingBestBlockNumber =
     state\<lparr>bestBlockNumber := Some (setFetching (bestBlockNumber state))\<rparr>"
| "reduce now state (CacheTxList a txs) =
     state\<lparr>txList := (txList state)(a \<mapsto> cached now txs)\<rparr>"
| "reduce now state (SetFetchingTxList a) =
     state\<lparr>txList := (txList state)(a \<mapsto> setFetching (txList state a))\<rparr>"
| "reduce now state (SetFetchingCountOfTxList a) =
     state\<lparr>countOfTxList := (countOfTxList state)(a \<mapsto> setFetching (countOfTxList state a))\<rparr>"
| "reduce now state (SetFetchingCountOfTxListById a assetType) =
     (let i = getIdByAddressAssetType a assetType
      in state\<lparr>countOfTxListById :=
           (countOfTxListById state)(i \<mapsto> setFetching (countOfTxListById state i))\<rparr>)"
| "reduce now state (CacheCountOfTxList a n) =
     state\<lparr>countOfTxList := (countOfTxList state)(a \<mapsto> cached now n)\<rparr>"
| "reduce now state (CacheCountOfTxListById a assetType n) =
     (let i = getIdByAddressAssetType a assetType
      in state\<lparr>countOfTxListById := (countOfTxListById state)(i \<mapsto> cached now n)\<rparr>)"
| "reduce now state (SetFetchingTxListById a assetType) =
     (let i = getIdByAddressAssetType a assetType
      in state\<lparr>txListById := (txListById state)(i \<mapsto> setFetching (txListById state i))\<rparr>)"
| "reduce now state (CacheTxListById a assetType txs) =
     (let i = getIdByAddressAssetType a assetType
      in state\<lparr>txListById := (txListById state)(i \<mapsto> cached now txs)\<rparr>)"
| "reduce now state OtherAction = state"

text \<open>
  \<^verbatim>\<open>chainReducer(state = chainInitState, action)\<close>: a state that is \<^verbatim>\<open>undefined\<close>
  (\<open>None\<close>) is replaced by the initial state.
\<close>

definition chainReducer :: "int \<Rightarrow> 'tx ChainState option \<Rightarrow> 'tx Action \<Rightarrow> 'tx ChainState" where
  "chainReducer now state action =
     reduce now (case state of None \<Rightarrow> chainInitState | Some st \<Rightarrow> st) action"

section \<open>What discovery derives and probes at an index\<close>

text \<open>
  The values one iteration of a discovery loop computes at index \<open>i\<close>: the key
  fingerprint, the address, the usage evidence the ledger gives for it (a non-zero nonce
  for a platform account, a non-empty list of unspent outputs for an asset address), and
  the two objects the iteration pushes.
\<close>

definition platformKeyAt :: "'u Collaborators \<Rightarrow> Storage \<Rightarrow> nat \<Rightarrow> string" where
  "platformKeyAt c s i =
     blake160 c
       (getPublicKeyFromSeed c (getFirstSeedHash c) (pathFor Platform i) (getPassphrase s))"

definition platformAddressAt :: "'u Collaborators \<Rightarrow> NetworkId \<Rightarrow> Storage \<Rightarrow> nat \<Rightarrow> string" where
  "platformAddressAt c networkId s i = fromAccountId c (platformKeyAt c s i) networkId"

definition platformUsed :: "'u Collaborators \<Rightarrow> NetworkId \<Rightarrow> Storage \<Rightarrow> nat \<Rightarrow> bool" where
  "platformUsed c networkId s i =
     (getPlatformAccount c (platformAddressAt c networkId s i) networkId \<noteq> 0)"

definition platformWalletAddress ::
  "'u Collaborators \<Rightarrow> NetworkId \<Rightarrow> Storage \<Rightarrow> nat \<Rightarrow> WalletAddress" where
  "platformWalletAddress c networkId s i =
     \<lparr>name = ''P-address '' @ number_toString i, address = platformAddressAt c networkId s i,
      addressType = Platform\<rparr>"

definition platformStoredKey :: "'u Collaborators \<Rightarrow> Storage \<Rightarrow> nat \<Rightarrow> StoredKey" where
  "platformStoredKey c s i = \<lparr>pathIndex = i, keyType = Platform, key = platformKeyAt c s i\<rparr>"

definition assetKeyAt :: "'u Collaborators \<Rightarrow> Storage \<Rightarrow> nat \<Rightarrow> string" where
  "assetKeyAt c s i =
     blake160 c
       (getPublicKeyFromSeed c (getFirstSeedHash c) (pathFor Asset i) (getPassphrase s))"

definition assetAddressAt :: "'u Collaborators \<Rightarrow> NetworkId \<Rightarrow> Storage \<Rightarrow> nat \<Rightarrow> string" where
  "assetAddressAt c networkId s i = fromTypeAndPayload c 1 (assetKeyAt c s i) networkId"

definition assetUsed :: "'u Collaborators \<Rightarrow> NetworkId \<Rightarrow> Storage \<Rightarrow> nat \<Rightarrow> bool" where
  "assetUsed c networkId s i =
     (getAggsUTXOList c (assetAddressAt c networkId s i) networkId \<noteq> [])"

definition assetWalletAddress ::
  "'u Collaborators \<Rightarrow> NetworkId \<Rightarrow> Storage \<Rightarrow> nat \<Rightarrow> WalletAddress" where
  "assetWalletAddress c networkId s i =
     \<lparr>name = ''A-address '' @ number_toString i, address = assetAddressAt c networkId s i,
      addressType = Asset\<rparr>"

definition assetStoredKey :: "'u Collaborators \<Rightarrow> Storage \<Rightarrow> nat \<Rightarrow> StoredKey" where
  "assetStoredKey c s i = \<lparr>pathIndex = i, keyType = Asset, key = assetKeyAt c s i\<rparr>"

text \<open>
  The value \<^verbatim>\<open>lastValid...PathIndex\<close> has after the indices \<open>ixs\<close> were scanned in
  order, starting from \<open>lv\<close>.
\<close>

definition lastUsed :: "(nat \<Rightarrow> bool) \<Rightarrow> nat list \<Rightarrow> nat option \<Rightarrow> nat option" where
  "lastUsed used ixs lv = foldl (\<lambda>l i. if used i then Some i else l) lv ixs"

text \<open>The value of a string of decimal digits, used to read an index back from its path.\<close>

definition digit_value :: "char \<Rightarrow> nat" where
  "digit_value ch = of_char ch - 48"

definition decimal_value :: "string \<Rightarrow> nat" where
  "decimal_value cs = foldl (\<lambda>acc ch. 10 * acc + digit_value ch) 0 cs"

section \<open>A small vault and ledger to run the functions on\<close>

text \<open>
  The public key this vault derives is the path itself, followed by \<open>#\<close> and the
  passphrase when one is passed; the hash is the identity and an address is the network
  id, a role letter and the key, so a result shows which path and passphrase made it.
  The ledger has a nonce of 4 for the platform addresses at the indices \<open>usedPlatform\<close>
  and one unspent output for the asset addresses at the indices \<open>usedAsset\<close>, all
  derived with the passphrase \<open>pw\<close>.
\<close>

definition demoCollaborators :: "nat list \<Rightarrow> nat list \<Rightarrow> nat Collaborators" where
  "demoCollaborators usedPlatform usedAsset =
     \<lparr>getSeedHashes = [''5eed''],
      getPublicKeyFromSeed =
        (\<lambda>h path pw. path @ (case pw of None \<Rightarrow> [] | Some p \<Rightarrow> CHR ''#'' # p)),
      blake160 = (\<lambda>pub. pub),
      fromAccountId = (\<lambda>k networkId. networkId @ ''c:'' @ k),
      fromTypeAndPayload = (\<lambda>t k networkId. networkId @ ''a:'' @ k),
      getPlatformAccount =
        (\<lambda>a networkId.
           if a \<in> set (map (\<lambda>i. networkId @ ''c:'' @ pathFor Platform i @ ''#pw'') usedPlatform)
           then 4 else 0),
      getAggsUTXOList =
        (\<lambda>a networkId.
           if a \<in> set (map (\<lambda>i. networkId @ ''a:'' @ pathFor Asset i @ ''#pw'') usedAsset)
           then [1] else [])\<rparr>"

definition demoStorage :: Storage where
  "demoStorage = \<lparr>platformKeys = None, assetKeys = None, passphrase = Some ''pw''\<rparr>"

text \<open>A storage that already holds one key of each role, at index 0.\<close>

definition demoStorage1 :: Storage where
  "demoStorage1 =
     \<lparr>platformKeys = Some [\<lparr>pathIndex = 0, keyType = Platform, key = ''k0''\<rparr>],
      assetKeys = Some [\<lparr>pathIndex = 0, keyType = Asset, key = ''k0''\<rparr>],
      passphrase = Some ''pw''\<rparr>"

text \<open>A chain state with two cached addresses and a best block number.\<close>

definition demoChainState :: "nat ChainState" where
  "demoChainState =
     chainInitState\<lparr>pendingTxList := [''addr1'' \<mapsto> cached 10 [1, 2], ''addr2'' \<mapsto> cached 20 [3]],
                    bestBlockNumber := Some (cached 30 7)\<rparr>"

section \<open>Decimal strings\<close>

lemma digit_value_digit_char: "d < 10 \<Longrightarrow> digit_value (digit_char d) = d"
  by (simp add: digit_value_def digit_char_def)

lemma decimal_value_snoc:
  "decimal_value (cs @ [ch]) = 10 * decimal_value cs + digit_value ch"
  by (simp add: decimal_value_def)

lemma decimal_value_number_toString: "decimal_value (number_toString n) = n"
proof (induction n rule: number_toString.induct)
  case (1 n)
  show ?case
  proof (cases "n < 10")
    case True
    then show ?thesis
      by (simp add: number_toString.simps [of n] decimal_value_def digit_value_digit_char)
  next
    case False
    with 1 have "decimal_value (number_toString (n div 10)) = n div 10"
      by simp
    with False show ?thesis
      by (simp add: number_toString.simps [of n] decimal_value_snoc digit_value_digit_char)
  qed
qed

lemma number_toString_inj: "number_toString i = number_toString j \<Longrightarrow> i = j"
  by (metis decimal_value_number_toString)

lemma number_toString_0: "number_toString 0 = ''0''"
  by code_simp

lemma number_toString_zero: "number_toString n = ''0'' \<longleftrightarrow> n = 0"
  using number_toString_inj [of n 0] by (auto simp: number_toString_0)

section \<open>Derivation paths are injective\<close>

text \<open>
  Claim C8. The path of a role at index \<open>i\<close> differs from the path of the same role at
  any other index \<open>j\<close>, and the Platform path at an index differs from the Asset path at
  that index.
\<close>

theorem pathFor_injective:
  "(i \<noteq> j \<longrightarrow> pathFor r i \<noteq> pathFor r j) \<and> pathFor Platform i \<noteq> pathFor Asset i"
proof (intro conjI impI)
  assume "i \<noteq> j"
  then show "pathFor r i \<noteq> pathFor r j"
    by (cases r) (auto dest: number_toString_inj)
next
  show "pathFor Platform i \<noteq> pathFor Asset i"
    by (simp add: platformAddressPath_def assetAddressPath_def)
qed

theorem pathFor_injective_witness:
  "(3::nat) \<noteq> 12 \<and> pathFor Asset 3 = ''m/44'/3276/1'/0/3'' \<and>
   pathFor Asset 12 = ''m/44'/3276/1'/0/12'' \<and> pathFor Asset 3 \<noteq> pathFor Asset 12 \<and>
   pathFor Platform 3 \<noteq> pathFor Asset 3"
proof -
  have "pathFor Asset 3 = ''m/44'/3276/1'/0/3''" "pathFor Asset 12 = ''m/44'/3276/1'/0/12''"
    by code_simp+
  then show ?thesis
    using pathFor_injective [of 3 12 Asset] by simp
qed

section \<open>Issuance on an empty key index\<close>

lemma createPlatformAddress_empty:
  "\<not> hasKeys (getPlatformKeys s) \<Longrightarrow>
   map pathIndex (savedList (getPlatformKeys (snd (createPlatformAddress c networkId s)))) = [1]"
  by (simp add: createPlatformAddress_def Let_def savePlatformKeys_def getPlatformKeys_def
      savedList_def)

lemma createAssetAddress_empty:
  "\<not> hasKeys (getAssetKeys s) \<Longrightarrow>
   map pathIndex (savedList (getAssetKeys (snd (createAssetAddress c networkId s)))) = [1]"
  by (simp add: createAssetAddress_def Let_def saveAssetKeys_def getAssetKeys_def
      savedList_def)

text \<open>
  Claim C5. When the storage holds no key of a role (the getter answers nothing or an
  empty array), issuance for that role leaves exactly one stored key, and its
  \<open>pathIndex\<close> is 1.
\<close>

theorem issuance_on_empty_index:
  "(\<not> hasKeys (getPlatformKeys s) \<longrightarrow>
      map pathIndex (savedList (getPlatformKeys (snd (createPlatformAddress c networkId s)))) = [1])
   \<and> (\<not> hasKeys (getAssetKeys s) \<longrightarrow>
      map pathIndex (savedList (getAssetKeys (snd (createAssetAddress c networkId s)))) = [1])"
  using createPlatformAddress_empty createAssetAddress_empty by blast

theorem issuance_on_empty_index_witness:
  "\<not> hasKeys (getPlatformKeys demoStorage) \<and> \<not> hasKeys (getAssetKeys demoStorage) \<and>
   map pathIndex
     (savedList (getPlatformKeys (snd (createPlatformAddress (demoCollaborators [] []) ''tc''
        demoStorage)))) = [1] \<and>
   map pathIndex
     (savedList (getAssetKeys (snd (createAssetAddress (demoCollaborators [] []) ''tc''
        demoStorage)))) = [1]"
proof -
  have h: "\<not> hasKeys (getPlatformKeys demoStorage)" "\<not> hasKeys (getAssetKeys demoStorage)"
    by (simp_all add: hasKeys_def getPlatformKeys_def getAssetKeys_def demoStorage_def)
  then show ?thesis
    using issuance_on_empty_index [of demoStorage "demoCollaborators [] []" "''tc''"] by simp
qed

section \<open>The discovery loops in closed form\<close>

lemma lastUsed_Nil: "lastUsed used [] lv = lv"
  by (simp add: lastUsed_def)

lemma lastUsed_Cons:
  "lastUsed used (i # ixs) lv = lastUsed used ixs (if used i then Some i else lv)"
  by (simp add: lastUsed_def)

lemma lastUsed_append:
  "lastUsed used (xs @ ys) lv = lastUsed used ys (lastUsed used xs lv)"
  by (simp add: lastUsed_def)

lemma lastUsed_unused: "\<forall>i\<in>set ixs. \<not> used i \<Longrightarrow> lastUsed used ixs lv = lv"
  by (induction ixs arbitrary: lv) (simp_all add: lastUsed_Nil lastUsed_Cons)

lemma lastUsed_last:
  "used i \<Longrightarrow> \<forall>j\<in>set ys. \<not> used j \<Longrightarrow> lastUsed used (xs @ i # ys) lv = Some i"
  by (simp add: lastUsed_append lastUsed_Cons lastUsed_unused)

lemma lastUsed_upt:
  assumes "l < n" "used l" "\<forall>i<n. l < i \<longrightarrow> \<not> used i"
  shows "lastUsed used [0..<n] lv = Some l"
proof -
  have "[0..<n] = [0..<l] @ l # [Suc l..<n]"
    using assms(1) by (metis upt_add_eq_append upt_conv_Cons le0 add_0 less_imp_le_nat
        le_add_diff_inverse)
  moreover have "\<forall>j\<in>set [Suc l..<n]. \<not> used j"
    using assms(3) by simp
  ultimately show ?thesis
    using assms(2) by (simp add: lastUsed_last)
qed

lemma lastUsed_cong:
  "\<forall>i\<in>set ixs. used i = used' i \<Longrightarrow> lastUsed used ixs lv = lastUsed used' ixs lv"
  by (induction ixs arbitrary: lv) (simp_all add: lastUsed_Nil lastUsed_Cons)

lemma restorePlatformLoop_step:
  "cp < restoringCheckingRange \<Longrightarrow>
   restorePlatformLoop c nid s cp as ks lv =
     restorePlatformLoop c nid s (Suc cp) (as @ [platformWalletAddress c nid s cp])
       (ks @ [platformStoredKey c s cp]) (if platformUsed c nid s cp then Some cp else lv)"
  by (subst restorePlatformLoop.simps)
    (simp add: Let_def platformWalletAddress_def platformStoredKey_def platformUsed_def
      platformAddressAt_def platformKeyAt_def number_toString_zero)

lemma restorePlatformLoop_done:
  "\<not> cp < restoringCheckingRange \<Longrightarrow> restorePlatformLoop c nid s cp as ks lv = (as, ks, lv)"
  by (subst restorePlatformLoop.simps) simp

lemma restorePlatformLoop_eq:
  "cp \<le> restoringCheckingRange \<Longrightarrow>
   restorePlatformLoop c nid s cp as ks lv =
     (as @ map (platformWalletAddress c nid s) [cp..<restoringCheckingRange],
      ks @ map (platformStoredKey c s) [cp..<restoringCheckingRange],
      lastUsed (platformUsed c nid s) [cp..<restoringCheckingRange] lv)"
proof (induction "restoringCheckingRange - cp" arbitrary: cp as ks lv)
  case 0
  then show ?case
    by (simp add: restorePlatformLoop_done lastUsed_Nil)
next
  case (Suc d)
  then have lt: "cp < restoringCheckingRange" and d: "d = restoringCheckingRange - Suc cp"
    and le: "Suc cp \<le> restoringCheckingRange"
    by simp_all
  have upt: "[cp..<restoringCheckingRange] = cp # [Suc cp..<restoringCheckingRange]"
    using lt by (simp add: upt_conv_Cons)
  show ?case
    by (simp add: restorePlatformLoop_step [OF lt] Suc.hyps(1) [OF d le] upt lastUsed_Cons)
qed

lemma restorePlatformAddresses_eq:
  "restorePlatformAddresses c nid s =
     (case lastUsed (platformUsed c nid s) [0..<restoringCheckingRange] None of
        None \<Rightarrow> ([], savePlatformKeys [] s)
      | Some l \<Rightarrow>
          if l = 0 then ([], savePlatformKeys [] s)
          else (take (l + 1) (map (platformWalletAddress c nid s) [0..<restoringCheckingRange]),
                savePlatformKeys
                  (take (l + 1) (map (platformStoredKey c s) [0..<restoringCheckingRange])) s))"
  by (simp add: restorePlatformAddresses_def restorePlatformLoop_eq slice0_def
      split: option.split)

lemma restorePlatform_none:
  assumes "\<forall>i<restoringCheckingRange. \<not> platformUsed c nid s i"
  shows "restorePlatformAddresses c nid s = ([], s\<lparr>platformKeys := Some []\<rparr>)"
proof -
  have "lastUsed (platformUsed c nid s) [0..<restoringCheckingRange] None = None"
    using assms by (intro lastUsed_unused) simp
  then show ?thesis
    by (simp add: restorePlatformAddresses_eq savePlatformKeys_def)
qed

lemma restorePlatform_last:
  assumes "l < restoringCheckingRange" "platformUsed c nid s l"
    and "\<forall>i<restoringCheckingRange. l < i \<longrightarrow> \<not> platformUsed c nid s i"
  shows "restorePlatformAddresses c nid s =
     (if l = 0 then ([], s\<lparr>platformKeys := Some []\<rparr>)
      else (map (platformWalletAddress c nid s) [0..<l + 1],
            s\<lparr>platformKeys := Some (map (platformStoredKey c s) [0..<l + 1])\<rparr>))"
proof -
  have "lastUsed (platformUsed c nid s) [0..<restoringCheckingRange] None = Some l"
    using assms by (intro lastUsed_upt) simp_all
  moreover have "min restoringCheckingRange (l + 1) = l + 1"
    using assms(1) by simp
  ultimately show ?thesis
    by (simp add: restorePlatformAddresses_eq savePlatformKeys_def take_map take_upt)
qed

lemma restoreAssetLoop_step:
  "cp < restoringCheckingRange \<Longrightarrow>
   restoreAssetLoop c nid s cp as ks lv =
     restoreAssetLoop c nid s (Suc cp) (as @ [assetWalletAddress c nid s cp])
       (ks @ [assetStoredKey c s cp]) (if assetUsed c nid s cp then Some cp else lv)"
  by (subst restoreAssetLoop.simps)
    (simp add: Let_def assetWalletAddress_def assetStoredKey_def assetUsed_def
      assetAddressAt_def assetKeyAt_def)

lemma restoreAssetLoop_done:
  "\<not> cp < restoringCheckingRange \<Longrightarrow> restoreAssetLoop c nid s cp as ks lv = (as, ks, lv)"
  by (subst restoreAssetLoop.simps) simp

lemma restoreAssetLoop_eq:
  "cp \<le> restoringCheckingRange \<Longrightarrow>
   restoreAssetLoop c nid s cp as ks lv =
     (as @ map (assetWalletAddress c nid s) [cp..<restoringCheckingRange],
      ks @ map (assetStoredKey c s) [cp..<restoringCheckingRange],
      lastUsed (assetUsed c nid s) [cp..<restoringCheckingRange] lv)"
proof (induction "restoringCheckingRange - cp" arbitrary: cp as ks lv)
  case 0
  then show ?case
    by (simp add: restoreAssetLoop_done lastUsed_Nil)
next
  case (Suc d)
  then have lt: "cp < restoringCheckingRange" and d: "d = restoringCheckingRange - Suc cp"
    and le: "Suc cp \<le> restoringCheckingRange"
    by simp_all
  have upt: "[cp..<restoringCheckingRange] = cp # [Suc cp..<restoringCheckingRange]"
    using lt by (simp add: upt_conv_Cons)
  show ?case
    by (simp add: restoreAssetLoop_step [OF lt] Suc.hyps(1) [OF d le] upt lastUsed_Cons)
qed

lemma restoreAssetAddresses_eq:
  "restoreAssetAddresses c nid s =
     (case lastUsed (assetUsed c nid s) [0..<restoringCheckingRange] None of
        None \<Rightarrow> ([], saveAssetKeys [] s)
      | Some l \<Rightarrow>
          if l = 0 then ([], saveAssetKeys [] s)
          else (take (l + 1) (map (assetWalletAddress c nid s) [0..<restoringCheckingRange]),
                saveAssetKeys
                  (take (l + 1) (map (assetStoredKey c s) [0..<restoringCheckingRange])) s))"
  by (simp add: restoreAssetAddresses_def restoreAssetLoop_eq slice0_def
      split: option.split)

lemma restoreAsset_none:
  assumes "\<forall>i<restoringCheckingRange. \<not> assetUsed c nid s i"
  shows "restoreAssetAddresses c nid s = ([], s\<lparr>assetKeys := Some []\<rparr>)"
proof -
  have "lastUsed (assetUsed c nid s) [0..<restoringCheckingRange] None = None"
    using assms by (intro lastUsed_unused) simp
  then show ?thesis
    by (simp add: restoreAssetAddresses_eq saveAssetKeys_def)
qed

lemma restoreAsset_last:
  assumes "l < restoringCheckingRange" "assetUsed c nid s l"
    and "\<forall>i<restoringCheckingRange. l < i \<longrightarrow> \<not> assetUsed c nid s i"
  shows "restoreAssetAddresses c nid s =
     (if l = 0 then ([], s\<lparr>assetKeys := Some []\<rparr>)
      else (map (assetWalletAddress c nid s) [0..<l + 1],
            s\<lparr>assetKeys := Some (map (assetStoredKey c s) [0..<l + 1])\<rparr>))"
proof -
  have "lastUsed (assetUsed c nid s) [0..<restoringCheckingRange] None = Some l"
    using assms by (intro lastUsed_upt) simp_all
  moreover have "min restoringCheckingRange (l + 1) = l + 1"
    using assms(1) by simp
  ultimately show ?thesis
    by (simp add: restoreAssetAddresses_eq saveAssetKeys_def take_map take_upt)
qed

section \<open>Discovery\<close>

text \<open>
  Claim C6. When the ledger shows no usage evidence at any of the scanned indices,
  discovery for a role returns no address and replaces the stored keys of that role,
  whatever they were, by the empty list.
\<close>

theorem discovery_without_usage:
  "((\<forall>i<restoringCheckingRange. \<not> platformUsed c networkId s i) \<longrightarrow>
      restorePlatformAddresses c networkId s = ([], s\<lparr>platformKeys := Some []\<rparr>))
   \<and> ((\<forall>i<restoringCheckingRange. \<not> assetUsed c networkId s i) \<longrightarrow>
      restoreAssetAddresses c networkId s = ([], s\<lparr>assetKeys := Some []\<rparr>))"
  using restorePlatform_none restoreAsset_none by blast

theorem discovery_without_usage_witness:
  "list_all (\<lambda>i. \<not> platformUsed (demoCollaborators [] []) ''tc'' demoStorage1 i)
     [0..<restoringCheckingRange] \<and>
   list_all (\<lambda>i. \<not> assetUsed (demoCollaborators [] []) ''tc'' demoStorage1 i)
     [0..<restoringCheckingRange] \<and>
   restorePlatformAddresses (demoCollaborators [] []) ''tc'' demoStorage1 =
     ([], demoStorage1\<lparr>platformKeys := Some []\<rparr>) \<and>
   restoreAssetAddresses (demoCollaborators [] []) ''tc'' demoStorage1 =
     ([], demoStorage1\<lparr>assetKeys := Some []\<rparr>)"
proof -
  have p: "\<forall>i\<in>set [0..<restoringCheckingRange].
      \<not> platformUsed (demoCollaborators [] []) ''tc'' demoStorage1 i"
    by code_simp
  have a: "\<forall>i\<in>set [0..<restoringCheckingRange].
      \<not> assetUsed (demoCollaborators [] []) ''tc'' demoStorage1 i"
    by code_simp
  from p a show ?thesis
    using discovery_without_usage [of "demoCollaborators [] []" "''tc''" demoStorage1]
    by (simp add: list_all_iff)
qed

lemma restorePlatform_2_7:
  assumes "\<forall>i<restoringCheckingRange. platformUsed c nid s i = (i = 2 \<or> i = 7)"
  shows "restorePlatformAddresses c nid s =
     (map (platformWalletAddress c nid s) [0..<8],
      s\<lparr>platformKeys := Some (map (platformStoredKey c s) [0..<8])\<rparr>)"
  using restorePlatform_last [of 7 c nid s] assms by (simp add: restoringCheckingRange_def)

lemma restoreAsset_2_7:
  assumes "\<forall>i<restoringCheckingRange. assetUsed c nid s i = (i = 2 \<or> i = 7)"
  shows "restoreAssetAddresses c nid s =
     (map (assetWalletAddress c nid s) [0..<8],
      s\<lparr>assetKeys := Some (map (assetStoredKey c s) [0..<8])\<rparr>)"
  using restoreAsset_last [of 7 c nid s] assms by (simp add: restoringCheckingRange_def)

text \<open>
  Claim C7. When the ledger shows usage evidence at the indices 2 and 7 and at no other
  scanned index, discovery for a role returns the eight addresses of the indices 0 to 7
  in increasing order, the unused ones among them, and stores the eight matching keys.
\<close>

theorem discovery_keeps_gaps:
  "((\<forall>i<restoringCheckingRange. platformUsed c networkId s i = (i = 2 \<or> i = 7)) \<longrightarrow>
      restorePlatformAddresses c networkId s =
        (map (platformWalletAddress c networkId s) [0..<8],
         s\<lparr>platformKeys := Some (map (platformStoredKey c s) [0..<8])\<rparr>))
   \<and> ((\<forall>i<restoringCheckingRange. assetUsed c networkId s i = (i = 2 \<or> i = 7)) \<longrightarrow>
      restoreAssetAddresses c networkId s =
        (map (assetWalletAddress c networkId s) [0..<8],
         s\<lparr>assetKeys := Some (map (assetStoredKey c s) [0..<8])\<rparr>))"
  using restorePlatform_2_7 restoreAsset_2_7 by blast

theorem discovery_keeps_gaps_witness:
  "list_all (\<lambda>i. platformUsed (demoCollaborators [2, 7] [2, 7]) ''tc'' demoStorage i = (i = 2 \<or> i = 7))
     [0..<restoringCheckingRange] \<and>
   list_all (\<lambda>i. assetUsed (demoCollaborators [2, 7] [2, 7]) ''tc'' demoStorage i = (i = 2 \<or> i = 7))
     [0..<restoringCheckingRange] \<and>
   map name (fst (restorePlatformAddresses (demoCollaborators [2, 7] [2, 7]) ''tc'' demoStorage)) =
     [''P-address 0'', ''P-address 1'', ''P-address 2'', ''P-address 3'', ''P-address 4'',
      ''P-address 5'', ''P-address 6'', ''P-address 7''] \<and>
   map pathIndex (savedList (assetKeys
       (snd (restoreAssetAddresses (demoCollaborators [2, 7] [2, 7]) ''tc'' demoStorage)))) =
     [0, 1, 2, 3, 4, 5, 6, 7]"
proof -
  have p: "\<forall>i\<in>set [0..<restoringCheckingRange].
      platformUsed (demoCollaborators [2, 7] [2, 7]) ''tc'' demoStorage i = (i = 2 \<or> i = 7)"
    by code_simp
  have a: "\<forall>i\<in>set [0..<restoringCheckingRange].
      assetUsed (demoCollaborators [2, 7] [2, 7]) ''tc'' demoStorage i = (i = 2 \<or> i = 7)"
    by code_simp
  have n: "map (\<lambda>i. name (platformWalletAddress (demoCollaborators [2, 7] [2, 7]) ''tc'' demoStorage i)) [0..<8] =
     [''P-address 0'', ''P-address 1'', ''P-address 2'', ''P-address 3'', ''P-address 4'',
      ''P-address 5'', ''P-address 6'', ''P-address 7'']"
    by code_simp
  have k: "map (\<lambda>i. pathIndex (assetStoredKey (demoCollaborators [2, 7] [2, 7]) demoStorage i)) [0..<8] =
     [0, 1, 2, 3, 4, 5, 6, 7]"
    by code_simp
  from p a n k show ?thesis
    using discovery_keeps_gaps [of "demoCollaborators [2, 7] [2, 7]" "''tc''" demoStorage]
    by (simp add: list_all_iff savedList_def comp_def)
qed

text \<open>
  Claim C1, which asks for exactly one address and one stored key when the ledger shows
  usage evidence at index 0 and nowhere else. On such a ledger both discovery functions
  return no address and store the empty list: after the scan the variable holding the
  last used index is 0, and the test \<^verbatim>\<open>!lastValid...PathIndex\<close> treats 0 like
  \<^verbatim>\<open>undefined\<close>.
\<close>

theorem discovery_usage_at_index_0_only:
  "list_all (\<lambda>i. platformUsed (demoCollaborators [0] [0]) ''tc'' demoStorage i = (i = 0))
     [0..<restoringCheckingRange] \<and>
   list_all (\<lambda>i. assetUsed (demoCollaborators [0] [0]) ''tc'' demoStorage i = (i = 0))
     [0..<restoringCheckingRange] \<and>
   restorePlatformAddresses (demoCollaborators [0] [0]) ''tc'' demoStorage =
     ([], demoStorage\<lparr>platformKeys := Some []\<rparr>) \<and>
   restoreAssetAddresses (demoCollaborators [0] [0]) ''tc'' demoStorage =
     ([], demoStorage\<lparr>assetKeys := Some []\<rparr>)"
  by code_simp

section \<open>Discovery is determined by the vault, the passphrase and the probes\<close>

lemma platform_run_cong:
  assumes pw: "getPassphrase t = getPassphrase s"
    and p: "\<forall>i<restoringCheckingRange.
      pa (platformAddressAt c nid s i) nid = getPlatformAccount c (platformAddressAt c nid s i) nid"
  shows "fst (restorePlatformAddresses (c\<lparr>getPlatformAccount := pa, getAggsUTXOList := ul\<rparr>) nid t) =
           fst (restorePlatformAddresses c nid s)
       \<and> platformKeys (snd (restorePlatformAddresses
             (c\<lparr>getPlatformAccount := pa, getAggsUTXOList := ul\<rparr>) nid t)) =
           platformKeys (snd (restorePlatformAddresses c nid s))"
proof -
  let ?c = "c\<lparr>getPlatformAccount := pa, getAggsUTXOList := ul\<rparr>"
  have k: "platformKeyAt ?c t = platformKeyAt c s"
    by (rule ext) (simp add: platformKeyAt_def getFirstSeedHash_def pw)
  have a: "platformAddressAt ?c nid t = platformAddressAt c nid s"
    by (rule ext) (simp add: platformAddressAt_def k)
  have w: "platformWalletAddress ?c nid t = platformWalletAddress c nid s"
    by (rule ext) (simp add: platformWalletAddress_def a)
  have r: "platformStoredKey ?c t = platformStoredKey c s"
    by (rule ext) (simp add: platformStoredKey_def k)
  have "\<forall>i\<in>set [0..<restoringCheckingRange]. platformUsed ?c nid t i = platformUsed c nid s i"
    using p by (simp add: platformUsed_def a)
  then have l: "lastUsed (platformUsed ?c nid t) [0..<restoringCheckingRange] None =
      lastUsed (platformUsed c nid s) [0..<restoringCheckingRange] None"
    by (rule lastUsed_cong)
  show ?thesis
    by (simp add: restorePlatformAddresses_eq l w r savePlatformKeys_def split: option.split)
qed

lemma asset_run_cong:
  assumes pw: "getPassphrase t = getPassphrase s"
    and u: "\<forall>i<restoringCheckingRange.
      ul (assetAddressAt c nid s i) nid = getAggsUTXOList c (assetAddressAt c nid s i) nid"
  shows "fst (restoreAssetAddresses (c\<lparr>getPlatformAccount := pa, getAggsUTXOList := ul\<rparr>) nid t) =
           fst (restoreAssetAddresses c nid s)
       \<and> assetKeys (snd (restoreAssetAddresses
             (c\<lparr>getPlatformAccount := pa, getAggsUTXOList := ul\<rparr>) nid t)) =
           assetKeys (snd (restoreAssetAddresses c nid s))"
proof -
  let ?c = "c\<lparr>getPlatformAccount := pa, getAggsUTXOList := ul\<rparr>"
  have k: "assetKeyAt ?c t = assetKeyAt c s"
    by (rule ext) (simp add: assetKeyAt_def getFirstSeedHash_def pw)
  have a: "assetAddressAt ?c nid t = assetAddressAt c nid s"
    by (rule ext) (simp add: assetAddressAt_def k)
  have w: "assetWalletAddress ?c nid t = assetWalletAddress c nid s"
    by (rule ext) (simp add: assetWalletAddress_def a)
  have r: "assetStoredKey ?c t = assetStoredKey c s"
    by (rule ext) (simp add: assetStoredKey_def k)
  have "\<forall>i\<in>set [0..<restoringCheckingRange]. assetUsed ?c nid t i = assetUsed c nid s i"
    using u by (simp add: assetUsed_def a)
  then have l: "lastUsed (assetUsed ?c nid t) [0..<restoringCheckingRange] None =
      lastUsed (assetUsed c nid s) [0..<restoringCheckingRange] None"
    by (rule lastUsed_cong)
  show ?thesis
    by (simp add: restoreAssetAddresses_eq l w r saveAssetKeys_def split: option.split)
qed

text \<open>
  Claim C9. Take a run of discovery with collaborators \<open>c\<close> on storage \<open>s\<close>, and a
  second run with the same vault and encoders on a storage \<open>t\<close> that holds the same
  passphrase, whose ledger queries \<open>pa\<close> and \<open>ul\<close> answer as those of \<open>c\<close> on
  every address the first run probes. For both roles the two runs return the same
  addresses in the same order and store the same keys.
\<close>

theorem discovery_deterministic:
  assumes "getPassphrase t = getPassphrase s"
    and "\<forall>i<restoringCheckingRange.
      pa (platformAddressAt c networkId s i) networkId =
      getPlatformAccount c (platformAddressAt c networkId s i) networkId"
    and "\<forall>i<restoringCheckingRange.
      ul (assetAddressAt c networkId s i) networkId =
      getAggsUTXOList c (assetAddressAt c networkId s i) networkId"
  shows "fst (restorePlatformAddresses (c\<lparr>getPlatformAccount := pa, getAggsUTXOList := ul\<rparr>)
             networkId t) =
           fst (restorePlatformAddresses c networkId s)
       \<and> platformKeys (snd (restorePlatformAddresses
             (c\<lparr>getPlatformAccount := pa, getAggsUTXOList := ul\<rparr>) networkId t)) =
           platformKeys (snd (restorePlatformAddresses c networkId s))
       \<and> fst (restoreAssetAddresses (c\<lparr>getPlatformAccount := pa, getAggsUTXOList := ul\<rparr>)
             networkId t) =
           fst (restoreAssetAddresses c networkId s)
       \<and> assetKeys (snd (restoreAssetAddresses
             (c\<lparr>getPlatformAccount := pa, getAggsUTXOList := ul\<rparr>) networkId t)) =
           assetKeys (snd (restoreAssetAddresses c networkId s))"
  using platform_run_cong [where t = t and s = s and pa = pa and c = c and nid = networkId and ul = ul]
    asset_run_cong [where t = t and s = s and pa = pa and c = c and nid = networkId and ul = ul]
    assms
  by simp

theorem discovery_deterministic_witness:
  "getPassphrase demoStorage1 = getPassphrase demoStorage \<and>
   getPlatformAccount (demoCollaborators [2, 7, 12] [0, 3, 11]) ''tcc:m/44'/3276/0'/0/12#pw'' ''tc'' \<noteq>
   getPlatformAccount (demoCollaborators [2, 7] [0, 3]) ''tcc:m/44'/3276/0'/0/12#pw'' ''tc'' \<and>
   fst (restorePlatformAddresses
          ((demoCollaborators [2, 7] [0, 3])
             \<lparr>getPlatformAccount := getPlatformAccount (demoCollaborators [2, 7, 12] [0, 3, 11]),
              getAggsUTXOList := getAggsUTXOList (demoCollaborators [2, 7, 12] [0, 3, 11])\<rparr>)
          ''tc'' demoStorage1) =
     fst (restorePlatformAddresses (demoCollaborators [2, 7] [0, 3]) ''tc'' demoStorage) \<and>
   assetKeys (snd (restoreAssetAddresses
          ((demoCollaborators [2, 7] [0, 3])
             \<lparr>getPlatformAccount := getPlatformAccount (demoCollaborators [2, 7, 12] [0, 3, 11]),
              getAggsUTXOList := getAggsUTXOList (demoCollaborators [2, 7, 12] [0, 3, 11])\<rparr>)
          ''tc'' demoStorage1)) =
     assetKeys (snd (restoreAssetAddresses (demoCollaborators [2, 7] [0, 3]) ''tc'' demoStorage)) \<and>
   length (fst (restorePlatformAddresses (demoCollaborators [2, 7] [0, 3]) ''tc'' demoStorage)) = 8"
proof -
  let ?c = "demoCollaborators [2, 7] [0, 3]"
  let ?d = "demoCollaborators [2, 7, 12] [0, 3, 11]"
  have pw: "getPassphrase demoStorage1 = getPassphrase demoStorage"
    by (simp add: getPassphrase_def demoStorage_def demoStorage1_def)
  have "\<forall>i\<in>set [0..<restoringCheckingRange].
      getPlatformAccount ?d (platformAddressAt ?c ''tc'' demoStorage i) ''tc'' =
      getPlatformAccount ?c (platformAddressAt ?c ''tc'' demoStorage i) ''tc''"
    by code_simp
  then have p: "\<forall>i<restoringCheckingRange.
      getPlatformAccount ?d (platformAddressAt ?c ''tc'' demoStorage i) ''tc'' =
      getPlatformAccount ?c (platformAddressAt ?c ''tc'' demoStorage i) ''tc''"
    by simp
  have "\<forall>i\<in>set [0..<restoringCheckingRange].
      getAggsUTXOList ?d (assetAddressAt ?c ''tc'' demoStorage i) ''tc'' =
      getAggsUTXOList ?c (assetAddressAt ?c ''tc'' demoStorage i) ''tc''"
    by code_simp
  then have u: "\<forall>i<restoringCheckingRange.
      getAggsUTXOList ?d (assetAddressAt ?c ''tc'' demoStorage i) ''tc'' =
      getAggsUTXOList ?c (assetAddressAt ?c ''tc'' demoStorage i) ''tc''"
    by simp
  have d: "getPlatformAccount ?d ''tcc:m/44'/3276/0'/0/12#pw'' ''tc'' \<noteq>
     getPlatformAccount ?c ''tcc:m/44'/3276/0'/0/12#pw'' ''tc''"
    by code_simp
  have n: "length (fst (restorePlatformAddresses ?c ''tc'' demoStorage)) = 8"
    by code_simp
  from pw d n show ?thesis
    using discovery_deterministic [where t = demoStorage1 and s = demoStorage and c = ?c
        and networkId = "''tc''" and pa = "getPlatformAccount ?d" and ul = "getAggsUTXOList ?d",
        OF pw p u]
    by simp
qed

section \<open>Issuance\<close>

text \<open>
  Claim C2, which asks for the index after the last stored one. With one stored key at
  index 0, issuance for a role appends a key at index 2: \<^verbatim>\<open>pathIndex\<close> is already the
  last stored index plus one, and \<^verbatim>\<open>newPathIndex\<close> adds one more.
\<close>

theorem issuance_skips_an_index:
  "map pathIndex (savedList (getPlatformKeys demoStorage1)) = [0] \<and>
   map pathIndex
     (savedList (getPlatformKeys (snd (createPlatformAddress (demoCollaborators [] []) ''tc''
        demoStorage1)))) = [0, 2] \<and>
   map pathIndex (savedList (getAssetKeys demoStorage1)) = [0] \<and>
   map pathIndex
     (savedList (getAssetKeys (snd (createAssetAddress (demoCollaborators [] []) ''tc''
        demoStorage1)))) = [0, 2]"
  by code_simp

text \<open>
  Claim C3, which asks that the derivation path, the stored \<open>pathIndex\<close> and the display
  name use one index. On an empty storage \<^verbatim>\<open>createAssetAddress\<close> derives the key at
  the path of index 0 (\<^verbatim>\<open>assetAddressPath + pathIndex\<close>) and stores and names it with
  index 1 (\<^verbatim>\<open>newPathIndex\<close>); \<^verbatim>\<open>createPlatformAddress\<close> uses index 1 for all three.
\<close>

theorem asset_issuance_path_and_index_differ:
  "createAssetAddress (demoCollaborators [] []) ''tc'' demoStorage =
     (\<lparr>name = ''A-address 1'', address = ''tca:'' @ pathFor Asset 0, addressType = Asset\<rparr>,
      demoStorage\<lparr>assetKeys := Some [\<lparr>pathIndex = 1, keyType = Platform, key = pathFor Asset 0\<rparr>]\<rparr>)
   \<and> createPlatformAddress (demoCollaborators [] []) ''tc'' demoStorage =
     (\<lparr>name = ''P-address 1'', address = ''tcc:'' @ pathFor Platform 1, addressType = Platform\<rparr>,
      demoStorage\<lparr>platformKeys :=
        Some [\<lparr>pathIndex = 1, keyType = Platform, key = pathFor Platform 1\<rparr>]\<rparr>)"
  by code_simp

text \<open>
  Claim C4, which asks that every key stored under the Asset role carries the Asset
  tag. The key \<^verbatim>\<open>createAssetAddress\<close> appends carries the Platform tag, on every input,
  while the address it returns carries the Asset tag.
\<close>

theorem asset_issuance_stores_platform_tag:
  "keyType (last (savedList (getAssetKeys (snd (createAssetAddress c networkId s))))) = Platform
   \<and> addressType (fst (createAssetAddress c networkId s)) = Asset"
  by (simp add: createAssetAddress_def Let_def saveAssetKeys_def getAssetKeys_def savedList_def)

text \<open>The keys \<^verbatim>\<open>restoreAssetAddresses\<close> stores all carry the Asset tag.\<close>

lemma restoreAsset_tags:
  "\<forall>k \<in> set (savedList (getAssetKeys (snd (restoreAssetAddresses c networkId s)))). keyType k = Asset"
  by (auto simp: restoreAssetAddresses_eq saveAssetKeys_def getAssetKeys_def savedList_def
      assetStoredKey_def split: option.split dest!: in_set_takeD)

section \<open>The frame of \<^verbatim>\<open>CachePendingTxList\<close>\<close>

text \<open>
  Claim C10. On a \<^verbatim>\<open>CachePendingTxList\<close> action the reducer leaves every field but
  \<open>pendingTxList\<close> as it was, and leaves the entry of \<open>pendingTxList\<close> at every address
  other than the action's as it was.
\<close>

theorem cachePendingTxList_frame:
  "txList (chainReducer now (Some state) (CachePendingTxList a txs)) = txList state \<and>
   countOfTxList (chainReducer now (Some state) (CachePendingTxList a txs)) = countOfTxList state \<and>
   txListById (chainReducer now (Some state) (CachePendingTxList a txs)) = txListById state \<and>
   countOfTxListById (chainReducer now (Some state) (CachePendingTxList a txs)) =
     countOfTxListById state \<and>
   pendingTxListById (chainReducer now (Some state) (CachePendingTxList a txs)) =
     pendingTxListById state \<and>
   bestBlockNumber (chainReducer now (Some state) (CachePendingTxList a txs)) =
     bestBlockNumber state \<and>
   (\<forall>b. b \<noteq> a \<longrightarrow>
      pendingTxList (chainReducer now (Some state) (CachePendingTxList a txs)) b =
      pendingTxList state b)"
  by (simp add: chainReducer_def)

theorem cachePendingTxList_frame_witness:
  "''addr2'' \<noteq> ''addr1'' \<and>
   pendingTxList (chainReducer 40 (Some demoChainState) (CachePendingTxList ''addr1'' [9])) ''addr2'' =
     Some (cached 20 [3]) \<and>
   pendingTxList (chainReducer 40 (Some demoChainState) (CachePendingTxList ''addr1'' [9])) ''addr1'' =
     Some (cached 40 [9]) \<and>
   bestBlockNumber (chainReducer 40 (Some demoChainState) (CachePendingTxList ''addr1'' [9])) =
     Some (cached 30 7)"
  using cachePendingTxList_frame [of 40 demoChainState "''addr1''" "[9]"]
  by (simp add: demoChainState_def chainReducer_def)

end
